theory Spec2Isabelle
  imports Main "HOL-Library.AList"
begin

section \<open>Shallow embedding of \<^verbatim>\<open>ophyd/controls/areadetector/base.py\<close>\<close>

text \<open>
  The module declares descriptors (\<^verbatim>\<open>Signal\<close>, \<^verbatim>\<open>SignalRW\<close>, \<^verbatim>\<open>ADSignal\<close>,
  \<^verbatim>\<open>ADSignalGroup\<close>) that create EPICS channel objects lazily and keep them in
  a dictionary, a metaclass (\<^verbatim>\<open>SignalMeta\<close>) that scans a class body, the generic
  operations of \<^verbatim>\<open>Base\<close> and \<^verbatim>\<open>SettableBase\<close>, and the documentation lookup
  \<^verbatim>\<open>lookup_doc\<close>.

  Python objects with identity live in an explicit heap (a list of objects, a reference is
  an index); an exception is the \<open>Inl\<close> branch of a sum, returned together with the
  state the raising code leaves behind. Library functions the module calls but does not
  define (\<^verbatim>\<open>str.format\<close>, the EPICS client) are parameters of the model.
\<close>

subsection \<open>Strings\<close>

text \<open>\<^verbatim>\<open>needle in haystack\<close> on Python strings.\<close>

definition startswith :: "string \<Rightarrow> string \<Rightarrow> bool" where
  "startswith s p = (take (length p) s = p)"

fun str_in :: "string \<Rightarrow> string \<Rightarrow> bool" where
  "str_in needle [] = (needle = [])"
| "str_in needle (c # cs) = (startswith (c # cs) needle \<or> str_in needle cs)"


text \<open>\<^verbatim>\<open>str.lower\<close> on the ASCII letters, \<^verbatim>\<open>rstrip(':')\<close> and
  \<^verbatim>\<open>replace(':', '.')\<close>.\<close>

definition char_lower :: "char \<Rightarrow> char" where
  "char_lower c =
     (let n = (of_char c :: nat) in if 65 \<le> n \<and> n \<le> 90 then char_of (n + 32) else c)"

definition rstrip_colon :: "string \<Rightarrow> string" where
  "rstrip_colon s = rev (dropWhile (\<lambda>c. c = CHR '':'') (rev s))"

definition name_from_pv :: "string \<Rightarrow> string" where
  "name_from_pv pv =
     (let name = rstrip_colon (map char_lower pv)
      in map (\<lambda>c. if c = CHR '':'' then CHR ''.'' else c) name)"

subsection \<open>Errors\<close>

text \<open>The ways \<^verbatim>\<open>inspect.Signature.bind\<close> raises \<^verbatim>\<open>TypeError\<close>.\<close>

datatype bind_failure =
    TooManyPositional
  | MultipleValues string
  | MissingRequired string
  | UnexpectedKeyword string

datatype error =
    ValueError string
  | TypeError bind_failure
  | AttributeError string
  | KeyError string
  | DisconnectedError string

subsection \<open>The descriptors \<^verbatim>\<open>Signal\<close> and \<^verbatim>\<open>SignalRW\<close>\<close>

text \<open>The class attribute \<^verbatim>\<open>_class\<close>: the type of object \<^verbatim>\<open>__get__\<close> returns.
  \<^verbatim>\<open>Signal\<close> has \<^verbatim>\<open>EpicsSignalLite\<close>, its subclass \<^verbatim>\<open>SignalRW\<close> has
  \<^verbatim>\<open>EpicsSignalLiteRW\<close>; the extra positional and keyword arguments are opaque.\<close>

datatype sigkind = EpicsSignalLite | EpicsSignalLiteRW

record Signal_desc =
  sig_class :: sigkind
  pv_template :: string
  args :: "string list"
  kwargs :: "(string \<times> string) list"

definition Signal_init ::
  "sigkind \<Rightarrow> string \<Rightarrow> string list \<Rightarrow> (string \<times> string) list \<Rightarrow> error + Signal_desc" where
  "Signal_init k template as kws =
     (if \<not> str_in ''{base_name}'' template
      then Inl (ValueError (''pv_template must contain '' @ [CHR 0x27] @ ''{base_name}'' @ [CHR 0x27]))
      else Inr \<lparr>sig_class = k, pv_template = template, args = as, kwargs = kws\<rparr>)"

subsection \<open>The descriptor \<^verbatim>\<open>ADSignal\<close>\<close>

record ADSignal_desc =
  pv :: string
  has_rbv :: bool
  doc :: "string option"
  ad_kwargs :: "(string \<times> string) list"
  dunder_doc :: string

text \<open>\<^verbatim>\<open>ADSignal.__init__\<close> stores its arguments and has no \<^verbatim>\<open>raise\<close>; the result
  type is that of \<open>Signal_init\<close> so that the two constructors can be compared.\<close>

definition ADSignal_init ::
  "string \<Rightarrow> bool \<Rightarrow> string option \<Rightarrow> (string \<times> string) list \<Rightarrow> error + ADSignal_desc" where
  "ADSignal_init p rbv d kws =
     Inr \<lparr>pv = p, has_rbv = rbv, doc = d, ad_kwargs = kws,
          dunder_doc = ''[Lazy property for '' @ p @ '']''\<rparr>"

subsection \<open>Documentation lookup\<close>







subsection \<open>The heap\<close>

text \<open>Objects with identity: the channel objects \<^verbatim>\<open>EpicsSignalLite\<close> and
  \<^verbatim>\<open>EpicsSignalLiteRW\<close> (each wraps \<^verbatim>\<open>epics.PV\<close> objects, of which the model keeps
  the constructor arguments), the \<^verbatim>\<open>EpicsSignal\<close> and \<^verbatim>\<open>SignalGroup\<close> objects of
  \<^verbatim>\<open>ophyd.controls.signal\<close>, and dictionaries. A dictionary key is a string or a
  tuple of strings.\<close>

type_synonym ref = nat

datatype key = KStr string | KTuple "string list"

record PV =
  pvname :: string
  pv_args :: "string list"
  pv_kwargs :: "(string \<times> string) list"

text \<open>Modelled from the spec: \<^verbatim>\<open>EpicsSignal\<close> of \<^verbatim>\<open>ophyd.controls.signal\<close> is imported
  and not defined in this module. Its constructor never raises (section 6: errors are
  "surfaced lazily, not at construction"), the object keeps what it was constructed with,
  and its \<^verbatim>\<open>pvname\<close> is the identifier it reads from.\<close>

record EpicsSignal_obj =
  read_pv :: string
  write_pv :: "string option"
  es_name :: string
  es_kwargs :: "(string \<times> string) list"
  es_doc :: string

datatype hobj =
    Lite PV
  | LiteRW PV PV
  | EpicsSig EpicsSignal_obj
  | SigGroup "(string \<times> string) list" "ref list"
  | Dict "(key \<times> ref) list"

text \<open>The state: the heap, and the writes sent to the EPICS client so far.\<close>

record pystate =
  heap :: "hobj list"
  put_log :: "(string \<times> int) list"

definition alloc :: "hobj \<Rightarrow> pystate \<Rightarrow> ref \<times> pystate" where
  "alloc ob st = (length (heap st), st\<lparr>heap := heap st @ [ob]\<rparr>)"

definition dict_at :: "pystate \<Rightarrow> ref \<Rightarrow> (key \<times> ref) list option" where
  "dict_at st r =
     (if r < length (heap st)
      then (case heap st ! r of Dict d \<Rightarrow> Some d | _ \<Rightarrow> None)
      else None)"

text \<open>\<^verbatim>\<open>d[k] = v\<close> on the dictionary at reference \<open>r\<close>.\<close>

definition dict_store :: "pystate \<Rightarrow> ref \<Rightarrow> key \<Rightarrow> ref \<Rightarrow> pystate" where
  "dict_store st r k v =
     (case dict_at st r of
        Some d \<Rightarrow> st\<lparr>heap := (heap st)[r := Dict (AList.update k v d)]\<rparr>
      | None \<Rightarrow> st)"

text \<open>What an attribute access evaluates to: \<^verbatim>\<open>None\<close>, a heap object, an
  \<^verbatim>\<open>ADSignal\<close> descriptor, or something that is none of these.\<close>

datatype pyval = PyNone | VRef ref | VADSignal ADSignal_desc | VOther

subsection \<open>The EPICS client\<close>

text \<open>\<^verbatim>\<open>epics.PV\<close> is a library: whether the PV of a name is connected, and the value
  it holds, are given by the environment.\<close>

record world =
  pv_connected :: "string \<Rightarrow> bool"
  pv_value :: "string \<Rightarrow> int"

text \<open>The property \<^verbatim>\<open>connected\<close> of the two channel classes.\<close>

definition chan_connected :: "world \<Rightarrow> hobj \<Rightarrow> bool" where
  "chan_connected w ob =
     (case ob of
        Lite p \<Rightarrow> pv_connected w (pvname p)
      | LiteRW p rb \<Rightarrow> pv_connected w (pvname p) \<and> pv_connected w (pvname rb)
      | _ \<Rightarrow> False)"

text \<open>The decorator \<^verbatim>\<open>raise_if_disconnected\<close>: the message is built from
  \<^verbatim>\<open>self.pv.pvname\<close>.\<close>

definition not_connected_error :: "PV \<Rightarrow> error" where
  "not_connected_error p = DisconnectedError (pvname p @ '' is not connected'')"

text \<open>\<^verbatim>\<open>sig.get()\<close> on the value an attribute access gave.\<close>

definition chan_get :: "world \<Rightarrow> pyval \<Rightarrow> pystate \<Rightarrow> error + int" where
  "chan_get w v st =
     (case v of
        VRef r \<Rightarrow>
          (if r < length (heap st)
           then (case heap st ! r of
                   Lite p \<Rightarrow>
                     (if chan_connected w (Lite p) then Inr (pv_value w (pvname p))
                      else Inl (not_connected_error p))
                 | LiteRW p rb \<Rightarrow>
                     (if chan_connected w (LiteRW p rb) then Inr (pv_value w (pvname rb))
                      else Inl (not_connected_error p))
                 | _ \<Rightarrow> Inl (AttributeError ''get''))
           else Inl (AttributeError ''get''))
      | _ \<Rightarrow> Inl (AttributeError ''get''))"

text \<open>\<^verbatim>\<open>sig.put(val)\<close>: only \<^verbatim>\<open>EpicsSignalLiteRW\<close> has the method. The write goes to
  \<^verbatim>\<open>self.pv\<close>; what \<^verbatim>\<open>epics.PV.put\<close> returns is modelled as the pair written.\<close>

definition chan_put ::
  "world \<Rightarrow> pyval \<Rightarrow> int \<Rightarrow> pystate \<Rightarrow> (error + (string \<times> int)) \<times> pystate" where
  "chan_put w v x st =
     (case v of
        VRef r \<Rightarrow>
          (if r < length (heap st)
           then (case heap st ! r of
                   LiteRW p rb \<Rightarrow>
                     (if chan_connected w (LiteRW p rb)
                      then (Inr (pvname p, x), st\<lparr>put_log := put_log st @ [(pvname p, x)]\<rparr>)
                      else (Inl (not_connected_error p), st))
                 | _ \<Rightarrow> (Inl (AttributeError ''put''), st))
           else (Inl (AttributeError ''put''), st))
      | _ \<Rightarrow> (Inl (AttributeError ''put''), st))"

text \<open>\<^verbatim>\<open>sig.pv.pvname\<close>, as \<^verbatim>\<open>describe\<close> reads it.\<close>

definition chan_pvname :: "pyval \<Rightarrow> pystate \<Rightarrow> error + string" where
  "chan_pvname v st =
     (case v of
        VRef r \<Rightarrow>
          (if r < length (heap st)
           then (case heap st ! r of
                   Lite p \<Rightarrow> Inr (pvname p)
                 | LiteRW p rb \<Rightarrow> Inr (pvname p)
                 | _ \<Rightarrow> Inl (AttributeError ''pv''))
           else Inl (AttributeError ''pv''))
      | _ \<Rightarrow> Inl (AttributeError ''pv''))"

subsection \<open>\<^verbatim>\<open>SignalMeta\<close> and the classes it creates\<close>

text \<open>A value bound in a class body is a \<^verbatim>\<open>Signal\<close> instance (\<^verbatim>\<open>SignalRW\<close> is a
  subclass) or anything else. A Python \<^verbatim>\<open>dict\<close> keeps insertion order, so the class
  namespace is an association list.\<close>

datatype attr = SigAttr Signal_desc | OtherAttr

record schema_class =
  sc_name :: string
  sc_dict :: "(string \<times> attr) list"
  templates :: "(string \<times> string) list"
  signals :: "(string \<times> Signal_desc) list"
  signal_names :: "string list"
  default_sig_for_set :: "string list"
  pvs :: ref

fun signal_items :: "(string \<times> attr) list \<Rightarrow> (string \<times> Signal_desc) list" where
  "signal_items [] = []"
| "signal_items ((k, SigAttr d) # kvs) = (k, d) # signal_items kvs"
| "signal_items ((k, OtherAttr) # kvs) = signal_items kvs"

text \<open>\<^verbatim>\<open>SignalMeta.__new__\<close>: the dictionary \<^verbatim>\<open>_pvs\<close> is created here, once for the
  class, and bound as a class attribute.\<close>

definition SignalMeta_new ::
  "string \<Rightarrow> (string \<times> attr) list \<Rightarrow> pystate \<Rightarrow> schema_class \<times> pystate" where
  "SignalMeta_new name clsdict st =
     (let sig_dict = signal_items clsdict;
          writable_signals = map fst (filter (\<lambda>(k, v). sig_class v = EpicsSignalLiteRW) sig_dict);
          (r, st') = alloc (Dict []) st
      in (\<lparr>sc_name = name, sc_dict = clsdict,
           templates = map (\<lambda>(k, v). (k, pv_template v)) sig_dict,
           signals = sig_dict,
           signal_names = map fst sig_dict,
           default_sig_for_set = writable_signals,
           pvs = r\<rparr>, st'))"

text \<open>A class statement runs its body, one assignment after the other, into a fresh
  namespace and hands the namespace to the metaclass. An assignment to a name already bound
  replaces the value and keeps the place, as \<^verbatim>\<open>dict\<close> does.\<close>

datatype decl = DeclSignal string sigkind string | DeclOther string

fun exec_body :: "decl list \<Rightarrow> (string \<times> attr) list \<Rightarrow> error + (string \<times> attr) list" where
  "exec_body [] ns = Inr ns"
| "exec_body (DeclSignal n k t # ds) ns =
     (case Signal_init k t [] [] of
        Inl e \<Rightarrow> Inl e
      | Inr d \<Rightarrow> exec_body ds (AList.update n (SigAttr d) ns))"
| "exec_body (DeclOther n # ds) ns = exec_body ds (AList.update n OtherAttr ns)"

definition class_statement ::
  "string \<Rightarrow> decl list \<Rightarrow> pystate \<Rightarrow> (error + schema_class) \<times> pystate" where
  "class_statement name body st =
     (case exec_body body [] of
        Inl e \<Rightarrow> (Inl e, st)
      | Inr clsdict \<Rightarrow> (case SignalMeta_new name clsdict st of (c, st') \<Rightarrow> (Inr c, st')))"

text \<open>The body of \<^verbatim>\<open>class Motor(Base)\<close>, which binds \<^verbatim>\<open>val\<close> twice.\<close>

definition Motor_body :: "decl list" where
  "Motor_body =
     [DeclSignal ''val'' EpicsSignalLiteRW ''{base_name}.VAL'',
      DeclSignal ''val'' EpicsSignalLiteRW ''{base_name}.VAL'',
      DeclSignal ''egu'' EpicsSignalLiteRW ''{base_name}.EGU'',
      DeclSignal ''movn'' EpicsSignalLiteRW ''{base_name}.MOVN'',
      DeclSignal ''dmov'' EpicsSignalLiteRW ''{base_name}.DMOV'',
      DeclSignal ''stop'' EpicsSignalLiteRW ''{base_name}.STOP'']"

subsection \<open>\<^verbatim>\<open>Base\<close> instances and \<^verbatim>\<open>Signal.__get__\<close>\<close>

text \<open>The instance attributes \<^verbatim>\<open>Base.__init__\<close> assigns. \<open>read_fields\<close> is
  \<open>None\<close> while the attribute does not exist. The instance has no \<^verbatim>\<open>_pvs\<close> of its
  own: \<^verbatim>\<open>instance._pvs\<close> finds the attribute of its class.\<close>

record Base_obj =
  obj_class :: schema_class
  base_name :: string
  read_fields :: "string list option"

definition Base_init :: "schema_class \<Rightarrow> string \<Rightarrow> string list option \<Rightarrow> Base_obj" where
  "Base_init c bn rf =
     \<lparr>obj_class = c, base_name = bn,
      read_fields = (if rf = None then Some (signal_names c) else None)\<rparr>"

text \<open>\<^verbatim>\<open>str.format\<close> is a parameter: \<open>fmt template base_name\<close> stands for
  \<^verbatim>\<open>template.format(base_name=base_name)\<close>, which may raise.\<close>

type_synonym formatter = "string \<Rightarrow> string \<Rightarrow> error + string"

definition new_channel ::
  "sigkind \<Rightarrow> string \<Rightarrow> string list \<Rightarrow> (string \<times> string) list \<Rightarrow> hobj" where
  "new_channel k pv_name as kws =
     (case k of
        EpicsSignalLite \<Rightarrow> Lite \<lparr>pvname = pv_name, pv_args = as, pv_kwargs = kws\<rparr>
      | EpicsSignalLiteRW \<Rightarrow>
          LiteRW \<lparr>pvname = pv_name, pv_args = as, pv_kwargs = kws\<rparr>
                 \<lparr>pvname = pv_name @ ''.RBV'', pv_args = [], pv_kwargs = []\<rparr>)"

definition Signal_get ::
  "formatter \<Rightarrow> Signal_desc \<Rightarrow> Base_obj option \<Rightarrow> pystate \<Rightarrow> (error + pyval) \<times> pystate" where
  "Signal_get fmt self instance st =
     (case instance of
        None \<Rightarrow> (Inr PyNone, st)
      | Some inst \<Rightarrow>
          (case fmt (pv_template self) (base_name inst) of
             Inl e \<Rightarrow> (Inl e, st)
           | Inr pv_name \<Rightarrow>
               (case dict_at st (pvs (obj_class inst)) of
                  None \<Rightarrow> (Inl (AttributeError ''_pvs''), st)
                | Some d \<Rightarrow>
                    (case map_of d (KStr pv_name) of
                       Some r \<Rightarrow> (Inr (VRef r), st)
                     | None \<Rightarrow>
                         (case alloc (new_channel (sig_class self) pv_name (args self) (kwargs self)) st of
                            (r, st1) \<Rightarrow>
                              (Inr (VRef r),
                               dict_store st1 (pvs (obj_class inst)) (KStr pv_name) r))))))"

text \<open>\<^verbatim>\<open>getattr(self, name)\<close> on a \<^verbatim>\<open>Base\<close> instance. A \<^verbatim>\<open>Signal\<close> has no
  \<^verbatim>\<open>__set__\<close>, so an instance attribute of the same name hides it. Attributes inherited
  from \<^verbatim>\<open>Base\<close> and \<^verbatim>\<open>object\<close> are not modelled: a name the class body does not bind
  raises \<^verbatim>\<open>AttributeError\<close> here, where Python may find a method, on which the
  following \<^verbatim>\<open>.get\<close>, \<^verbatim>\<open>.put\<close> or \<^verbatim>\<open>.pv\<close> raises \<^verbatim>\<open>AttributeError\<close>.\<close>

definition Base_getattr ::
  "formatter \<Rightarrow> Base_obj \<Rightarrow> string \<Rightarrow> pystate \<Rightarrow> (error + pyval) \<times> pystate" where
  "Base_getattr fmt inst name st =
     (if name = ''base_name'' \<or> (name = ''read_fields'' \<and> read_fields inst \<noteq> None)
      then (Inr VOther, st)
      else (case map_of (sc_dict (obj_class inst)) name of
              Some (SigAttr d) \<Rightarrow> Signal_get fmt d (Some inst) st
            | Some OtherAttr \<Rightarrow> (Inr VOther, st)
            | None \<Rightarrow> (Inl (AttributeError name), st)))"

subsection \<open>\<^verbatim>\<open>Base.read\<close> and \<^verbatim>\<open>Base.describe\<close>\<close>

text \<open>The dictionary comprehensions, one field after the other; an exception abandons
  the dictionary built so far.\<close>

fun read_loop ::
  "formatter \<Rightarrow> world \<Rightarrow> Base_obj \<Rightarrow> string list \<Rightarrow> (string \<times> int) list \<Rightarrow> pystate
   \<Rightarrow> (error + (string \<times> int) list) \<times> pystate" where
  "read_loop fmt w inst [] acc st = (Inr acc, st)"
| "read_loop fmt w inst (name # names) acc st =
     (case Base_getattr fmt inst name st of
        (Inl e, st1) \<Rightarrow> (Inl e, st1)
      | (Inr v, st1) \<Rightarrow>
          (case chan_get w v st1 of
             Inl e \<Rightarrow> (Inl e, st1)
           | Inr x \<Rightarrow> read_loop fmt w inst names (AList.update name x acc) st1))"

definition Base_read ::
  "formatter \<Rightarrow> world \<Rightarrow> Base_obj \<Rightarrow> pystate \<Rightarrow> (error + (string \<times> int) list) \<times> pystate" where
  "Base_read fmt w inst st =
     (case read_fields inst of
        None \<Rightarrow> (Inl (AttributeError ''read_fields''), st)
      | Some names \<Rightarrow> read_loop fmt w inst names [] st)"

fun describe_loop ::
  "formatter \<Rightarrow> Base_obj \<Rightarrow> string list \<Rightarrow> (string \<times> string) list \<Rightarrow> pystate
   \<Rightarrow> (error + (string \<times> string) list) \<times> pystate" where
  "describe_loop fmt inst [] acc st = (Inr acc, st)"
| "describe_loop fmt inst (name # names) acc st =
     (case Base_getattr fmt inst name st of
        (Inl e, st1) \<Rightarrow> (Inl e, st1)
      | (Inr v, st1) \<Rightarrow>
          (case chan_pvname v st1 of
             Inl e \<Rightarrow> (Inl e, st1)
           | Inr src \<Rightarrow> describe_loop fmt inst names (AList.update name src acc) st1))"

definition Base_describe ::
  "formatter \<Rightarrow> Base_obj \<Rightarrow> pystate \<Rightarrow> (error + (string \<times> string) list) \<times> pystate" where
  "Base_describe fmt inst st =
     (case read_fields inst of
        None \<Rightarrow> (Inl (AttributeError ''read_fields''), st)
      | Some names \<Rightarrow> describe_loop fmt inst names [] st)"

subsection \<open>\<^verbatim>\<open>SettableBase.set\<close>\<close>

text \<open>\<^verbatim>\<open>Signature.bind\<close> for a signature whose parameters are all positional-or-keyword
  and have no default, which is what \<^verbatim>\<open>SignalMeta\<close> builds. Positional arguments are
  consumed first, the remaining parameters are taken from the keyword arguments, and a
  keyword argument left over is an error. The keyword arguments are a dictionary.\<close>

fun bind_positional ::
  "string list \<Rightarrow> int list \<Rightarrow> (string \<times> int) list
   \<Rightarrow> error + ((string \<times> int) list \<times> string list)" where
  "bind_positional ps [] kw = Inr ([], ps)"
| "bind_positional [] (a # as) kw = Inl (TypeError TooManyPositional)"
| "bind_positional (p # ps) (a # as) kw =
     (if map_of kw p \<noteq> None then Inl (TypeError (MultipleValues p))
      else (case bind_positional ps as kw of
              Inl e \<Rightarrow> Inl e
            | Inr (bound, rest) \<Rightarrow> Inr ((p, a) # bound, rest)))"

fun bind_keywords ::
  "string list \<Rightarrow> (string \<times> int) list
   \<Rightarrow> error + ((string \<times> int) list \<times> (string \<times> int) list)" where
  "bind_keywords [] kw = Inr ([], kw)"
| "bind_keywords (p # ps) kw =
     (case map_of kw p of
        None \<Rightarrow> Inl (TypeError (MissingRequired p))
      | Some v \<Rightarrow>
          (case bind_keywords ps (filter (\<lambda>(k, _). k \<noteq> p) kw) of
             Inl e \<Rightarrow> Inl e
           | Inr (bound, rest) \<Rightarrow> Inr ((p, v) # bound, rest)))"

definition Signature_bind ::
  "string list \<Rightarrow> int list \<Rightarrow> (string \<times> int) list \<Rightarrow> error + (string \<times> int) list" where
  "Signature_bind ps as kw =
     (case bind_positional ps as kw of
        Inl e \<Rightarrow> Inl e
      | Inr (b1, rest) \<Rightarrow>
          (case bind_keywords rest kw of
             Inl e \<Rightarrow> Inl e
           | Inr (b2, left) \<Rightarrow>
               (case left of
                  [] \<Rightarrow> Inr (b1 @ b2)
                | (k, _) # _ \<Rightarrow> Inl (TypeError (UnexpectedKeyword k)))))"

fun set_loop ::
  "formatter \<Rightarrow> world \<Rightarrow> Base_obj \<Rightarrow> (string \<times> int) list \<Rightarrow> (string \<times> int) list \<Rightarrow> pystate
   \<Rightarrow> (error + (string \<times> int) list) \<times> pystate" where
  "set_loop fmt w inst [] status_objs st = (Inr status_objs, st)"
| "set_loop fmt w inst ((name, val) # rest) status_objs st =
     (case Base_getattr fmt inst name st of
        (Inl e, st1) \<Rightarrow> (Inl e, st1)
      | (Inr sig, st1) \<Rightarrow>
          (case chan_put w sig val st1 of
             (Inl e, st2) \<Rightarrow> (Inl e, st2)
           | (Inr h, st2) \<Rightarrow> set_loop fmt w inst rest (status_objs @ [h]) st2))"

definition SettableBase_set ::
  "formatter \<Rightarrow> world \<Rightarrow> Base_obj \<Rightarrow> int list \<Rightarrow> (string \<times> int) list \<Rightarrow> pystate
   \<Rightarrow> (error + (string \<times> int) list) \<times> pystate" where
  "SettableBase_set fmt w inst as kw st =
     (case Signature_bind (default_sig_for_set (obj_class inst)) as kw of
        Inl e \<Rightarrow> (Inl e, st)
      | Inr bound \<Rightarrow> set_loop fmt w inst bound [] st)"

subsection \<open>\<^verbatim>\<open>ADBase\<close> and \<^verbatim>\<open>ADSignal.check_exists\<close>\<close>

text \<open>The instance attributes \<^verbatim>\<open>ADBase.__init__\<close> assigns; \<open>attrs\<close> holds what a
  subclass adds (\<^verbatim>\<open>self.channel\<close> in the docstring's example), for
  \<^verbatim>\<open>str.format(self=obj)\<close> to read. \<^verbatim>\<open>_ad_signals\<close> is a dictionary created by the
  constructor.\<close>

record ADBase_obj =
  ad_name :: string
  ad_alias :: string
  ad_prefix :: string
  ad_signals :: ref
  sig_dict :: "(string \<times> ref) list option"
  attrs :: "(string \<times> string) list"

definition ADBase_init ::
  "string \<Rightarrow> (string \<times> string) list \<Rightarrow> pystate \<Rightarrow> ADBase_obj \<times> pystate" where
  "ADBase_init pfx kws st =
     (let name = (case map_of kws ''name'' of Some n \<Rightarrow> n | None \<Rightarrow> name_from_pv pfx);
          al = (case map_of kws ''alias'' of Some a \<Rightarrow> a | None \<Rightarrow> ''None'');
          (r, st') = alloc (Dict []) st
      in (\<lparr>ad_name = name, ad_alias = al, ad_prefix = pfx, ad_signals = r,
           sig_dict = None, attrs = []\<rparr>, st'))"

text \<open>\<open>fmt template obj\<close> stands for \<^verbatim>\<open>template.format(self=obj)\<close>.\<close>

type_synonym self_formatter = "string \<Rightarrow> ADBase_obj \<Rightarrow> error + string"

text \<open>\<^verbatim>\<open>signal.__doc__ = ...\<close> on the object at a reference.\<close>

definition set_doc :: "pystate \<Rightarrow> ref \<Rightarrow> string \<Rightarrow> pystate" where
  "set_doc st r d =
     (if r < length (heap st)
      then (case heap st ! r of
              EpicsSig es \<Rightarrow> st\<lparr>heap := (heap st)[r := EpicsSig (es\<lparr>es_doc := d\<rparr>)]\<rparr>
            | _ \<Rightarrow> st)
      else st)"

definition check_exists ::
  "self_formatter \<Rightarrow> ADSignal_desc \<Rightarrow> ADBase_obj option \<Rightarrow> pystate
   \<Rightarrow> (error + pyval) \<times> pystate" where
  "check_exists fmt self obj st =
     (case obj of
        None \<Rightarrow> (Inr (VADSignal self), st)
      | Some ob \<Rightarrow>
          (case fmt (pv self) ob of
             Inl e \<Rightarrow> (Inl e, st)
           | Inr p \<Rightarrow>
               (case dict_at st (ad_signals ob) of
                  None \<Rightarrow> (Inl (AttributeError ''_ad_signals''), st)
                | Some d \<Rightarrow>
                    (case map_of d (KStr p) of
                       Some r \<Rightarrow> (Inr (VRef r), st)
                     | None \<Rightarrow>
                         (let full_name = ad_name ob @ ''.'' @ name_from_pv p;
                              both = ad_prefix ob @ p;
                              read_pv_name = (if has_rbv self then both @ ''_RBV'' else both);
                              write = (if has_rbv self then Some both else None);
                              signal = \<lparr>read_pv = read_pv_name, write_pv = write,
                                        es_name = full_name, es_kwargs = ad_kwargs self,
                                        es_doc = []\<rparr>
                          in (case alloc (EpicsSig signal) st of
                                (r, st1) \<Rightarrow>
                                  (let st2 = dict_store st1 (ad_signals ob) (KStr p) r;
                                       st3 = set_doc st2 r
                                               (case doc self of
                                                  Some d \<Rightarrow> d
                                                | None \<Rightarrow> dunder_doc self)
                                   in (Inr (VRef r), st3))))))))"

definition ADSignal_get ::
  "self_formatter \<Rightarrow> ADSignal_desc \<Rightarrow> ADBase_obj option \<Rightarrow> pystate
   \<Rightarrow> (error + pyval) \<times> pystate" where
  "ADSignal_get fmt self obj st = check_exists fmt self obj st"

subsection \<open>\<^verbatim>\<open>ADSignalGroup\<close>\<close>

text \<open>The call \<^verbatim>\<open>ADSignalGroup(*props, **kwargs)\<close> pops \<^verbatim>\<open>doc\<close> from the keyword
  arguments and returns a property whose getter is the inner \<^verbatim>\<open>check_exists\<close>.\<close>

record ADSignalGroup_prop =
  props :: "ADSignal_desc list"
  grp_kwargs :: "(string \<times> string) list"
  grp_doc :: string

definition ADSignalGroup ::
  "ADSignal_desc list \<Rightarrow> (string \<times> string) list \<Rightarrow> ADSignalGroup_prop" where
  "ADSignalGroup ps kws =
     \<lparr>props = ps,
      grp_kwargs = filter (\<lambda>(k, _). k \<noteq> ''doc'') kws,
      grp_doc = (case map_of kws ''doc'' of Some d \<Rightarrow> d | None \<Rightarrow> [])\<rparr>"

text \<open>\<^verbatim>\<open>tuple(prop.__get__(self) for prop in props)\<close>\<close>

fun get_props ::
  "self_formatter \<Rightarrow> ADSignal_desc list \<Rightarrow> ADBase_obj \<Rightarrow> pystate
   \<Rightarrow> (error + pyval list) \<times> pystate" where
  "get_props fmt [] self st = (Inr [], st)"
| "get_props fmt (p # ps) self st =
     (case ADSignal_get fmt p (Some self) st of
        (Inl e, st1) \<Rightarrow> (Inl e, st1)
      | (Inr v, st1) \<Rightarrow>
          (case get_props fmt ps self st1 of
             (Inl e, st2) \<Rightarrow> (Inl e, st2)
           | (Inr vs, st2) \<Rightarrow> (Inr (v # vs), st2)))"

text \<open>Modelled from the spec: \<^verbatim>\<open>EpicsSignal.pvname\<close> of \<^verbatim>\<open>ophyd.controls.signal\<close>,
  the "resolved identifier" of a member (section 4.4), is the identifier the signal reads
  from. Any other value has no such attribute.\<close>

definition signal_pvname :: "pystate \<Rightarrow> pyval \<Rightarrow> error + string" where
  "signal_pvname st v =
     (case v of
        VRef r \<Rightarrow>
          (if r < length (heap st)
           then (case heap st ! r of
                   EpicsSig es \<Rightarrow> Inr (read_pv es)
                 | _ \<Rightarrow> Inl (AttributeError ''pvname''))
           else Inl (AttributeError ''pvname''))
      | _ \<Rightarrow> Inl (AttributeError ''pvname''))"

text \<open>\<^verbatim>\<open>tuple(signal.pvname for signal in signals)\<close>\<close>

fun pvnames :: "pystate \<Rightarrow> pyval list \<Rightarrow> error + string list" where
  "pvnames st [] = Inr []"
| "pvnames st (v # vs) =
     (case signal_pvname st v of
        Inl e \<Rightarrow> Inl e
      | Inr n \<Rightarrow> (case pvnames st vs of Inl e \<Rightarrow> Inl e | Inr ns \<Rightarrow> Inr (n # ns)))"

text \<open>The first two lines of the inner \<^verbatim>\<open>check_exists\<close>: the members and the key.\<close>

definition group_key ::
  "self_formatter \<Rightarrow> ADSignalGroup_prop \<Rightarrow> ADBase_obj \<Rightarrow> pystate
   \<Rightarrow> (error + (pyval list \<times> string list)) \<times> pystate" where
  "group_key fmt g self st =
     (case get_props fmt (props g) self st of
        (Inl e, st1) \<Rightarrow> (Inl e, st1)
      | (Inr sigs, st1) \<Rightarrow>
          (case pvnames st1 sigs of
             Inl e \<Rightarrow> (Inl e, st1)
           | Inr k \<Rightarrow> (Inr (sigs, k), st1)))"

text \<open>Modelled from the spec: \<^verbatim>\<open>SignalGroup\<close> of \<^verbatim>\<open>ophyd.controls.signal\<close> "aggregates
  the members" (section 4.4): the object keeps its keyword arguments and the members in the
  order \<^verbatim>\<open>add_signal\<close> received them.\<close>

definition add_signal :: "ref \<Rightarrow> pystate \<Rightarrow> pyval \<Rightarrow> pystate" where
  "add_signal g st v =
     (case v of
        VRef r \<Rightarrow>
          (if g < length (heap st)
           then (case heap st ! g of
                   SigGroup kws ms \<Rightarrow> st\<lparr>heap := (heap st)[g := SigGroup kws (ms @ [r])]\<rparr>
                 | _ \<Rightarrow> st)
           else st)
      | _ \<Rightarrow> st)"

definition group_check_exists ::
  "self_formatter \<Rightarrow> ADSignalGroup_prop \<Rightarrow> ADBase_obj \<Rightarrow> pystate
   \<Rightarrow> (error + pyval) \<times> pystate" where
  "group_check_exists fmt g self st =
     (case group_key fmt g self st of
        (Inl e, st1) \<Rightarrow> (Inl e, st1)
      | (Inr (sigs, k), st1) \<Rightarrow>
          (case dict_at st1 (ad_signals self) of
             None \<Rightarrow> (Inl (AttributeError ''_ad_signals''), st1)
           | Some d \<Rightarrow>
               (case map_of d (KTuple k) of
                  Some r \<Rightarrow> (Inr (VRef r), st1)
                | None \<Rightarrow>
                    (case alloc (SigGroup (grp_kwargs g) []) st1 of
                       (sg, st2) \<Rightarrow>
                         (let st3 = foldl (add_signal sg) st2 sigs;
                              st4 = dict_store st3 (ad_signals self) (KTuple k) sg
                          in (Inr (VRef sg), st4))))))"

definition fget ::
  "self_formatter \<Rightarrow> ADSignalGroup_prop \<Rightarrow> ADBase_obj \<Rightarrow> pystate
   \<Rightarrow> (error + pyval) \<times> pystate" where
  "fget fmt g self st = group_check_exists fmt g self st"

subsection \<open>A fragment of \<^verbatim>\<open>str.format\<close>\<close>

text \<open>For running the model on concrete inputs: literal text, the escapes \<^verbatim>\<open>{{\<close> and
  \<^verbatim>\<open>}}\<close>, and replacement fields \<^verbatim>\<open>{name}\<close> whose whole text is looked up. The
  second argument is the field being read, if any. Conversions and format specifications
  are outside the fragment.\<close>

fun format_scan :: "(string \<Rightarrow> string option) \<Rightarrow> string option \<Rightarrow> string \<Rightarrow> error + string" where
  "format_scan kw None [] = Inr []"
| "format_scan kw (Some f) [] = Inl (ValueError ''expected } before end of string'')"
| "format_scan kw (Some f) (c # cs) =
     (if c = CHR ''}''
      then (case kw f of
              None \<Rightarrow> Inl (KeyError f)
            | Some v \<Rightarrow>
                (case format_scan kw None cs of Inl e \<Rightarrow> Inl e | Inr r \<Rightarrow> Inr (v @ r)))
      else format_scan kw (Some (f @ [c])) cs)"
| "format_scan kw None [c] =
     (if c = CHR ''{'' then Inl (ValueError ''Single { encountered in format string'')
      else if c = CHR ''}'' then Inl (ValueError ''Single } encountered in format string'')
      else Inr [c])"
| "format_scan kw None (c # c' # cs) =
     (if c = CHR ''{'' \<and> c' = CHR ''{'' \<or> c = CHR ''}'' \<and> c' = CHR ''}''
      then (case format_scan kw None cs of Inl e \<Rightarrow> Inl e | Inr r \<Rightarrow> Inr (c # r))
      else if c = CHR ''{'' then format_scan kw (Some []) (c' # cs)
      else if c = CHR ''}'' then Inl (ValueError ''Single } encountered in format string'')
      else (case format_scan kw None (c' # cs) of Inl e \<Rightarrow> Inl e | Inr r \<Rightarrow> Inr (c # r)))"

definition format_base_name :: formatter where
  "format_base_name template bn =
     format_scan (\<lambda>f. if f = ''base_name'' then Some bn else None) None template"

definition self_attr :: "ADBase_obj \<Rightarrow> string \<Rightarrow> string option" where
  "self_attr ob f =
     (if f = ''self.name'' then Some (ad_name ob)
      else if f = ''self.alias'' then Some (ad_alias ob)
      else if f = ''self._prefix'' then Some (ad_prefix ob)
      else if startswith f ''self.'' then map_of (attrs ob) (drop 5 f)
      else None)"

definition format_self :: self_formatter where
  "format_self template ob = format_scan (self_attr ob) None template"

section \<open>Notions the properties are stated with\<close>

subsection \<open>Documentation lookup, as the specification words it\<close>





subsection \<open>Class bodies\<close>

text \<open>The name a declaration binds, the value it binds when its constructor succeeds,
  whether the constructor succeeds, and the value the last declaration of a name binds.\<close>

fun decl_name :: "decl \<Rightarrow> string" where
  "decl_name (DeclSignal n k t) = n"
| "decl_name (DeclOther n) = n"

fun decl_value :: "decl \<Rightarrow> attr" where
  "decl_value (DeclSignal n k t) =
     SigAttr \<lparr>sig_class = k, pv_template = t, args = [], kwargs = []\<rparr>"
| "decl_value (DeclOther n) = OtherAttr"

fun decl_ok :: "decl \<Rightarrow> bool" where
  "decl_ok (DeclSignal n k t) = str_in ''{base_name}'' t"
| "decl_ok (DeclOther n) = True"

definition last_decl :: "decl list \<Rightarrow> string \<Rightarrow> attr option" where
  "last_decl body = map_of (rev (map (\<lambda>d. (decl_name d, decl_value d)) body))"

subsection \<open>A concrete run\<close>

text \<open>The empty state, the class \<^verbatim>\<open>Motor\<close> defined in it, and two \<^verbatim>\<open>Motor\<close> objects of
  the same base name, one constructed with the default \<^verbatim>\<open>read_fields\<close> and one with an
  explicit list.\<close>

definition st0 :: pystate where
  "st0 = \<lparr>heap = [], put_log = []\<rparr>"

definition Motor :: schema_class where
  "Motor = projr (fst (class_statement ''Motor'' Motor_body st0))"

definition st_Motor :: pystate where
  "st_Motor = snd (class_statement ''Motor'' Motor_body st0)"

definition motor1 :: Base_obj where
  "motor1 = Base_init Motor ''XF:1'' None"

definition motor2 :: Base_obj where
  "motor2 = Base_init Motor ''XF:1'' (Some [''val''])"

definition Motor_val :: Signal_desc where
  "Motor_val = \<lparr>sig_class = EpicsSignalLiteRW, pv_template = ''{base_name}.VAL'',
                 args = [], kwargs = []\<rparr>"

text \<open>An environment in which every PV is connected except \<^verbatim>\<open>XF:1.EGU\<close>, and every PV
  holds the value 7.\<close>

definition egu_down :: world where
  "egu_down = \<lparr>pv_connected = (\<lambda>n. n \<noteq> ''XF:1.EGU''), pv_value = (\<lambda>n. 7)\<rparr>"

text \<open>A class with the writable fields \<^verbatim>\<open>a\<close>, \<^verbatim>\<open>b\<close>, \<^verbatim>\<open>c\<close>, in that order, and a
  read-only field between them; an object of it.\<close>

definition abc_body :: "decl list" where
  "abc_body =
     [DeclSignal ''a'' EpicsSignalLiteRW ''{base_name}.A'',
      DeclSignal ''r'' EpicsSignalLite ''{base_name}.R'',
      DeclSignal ''b'' EpicsSignalLiteRW ''{base_name}.B'',
      DeclSignal ''c'' EpicsSignalLiteRW ''{base_name}.C'']"

definition ABC :: schema_class where
  "ABC = projr (fst (class_statement ''ABC'' abc_body st0))"

definition st_ABC :: pystate where
  "st_ABC = snd (class_statement ''ABC'' abc_body st0)"

definition abc1 :: Base_obj where
  "abc1 = Base_init ABC ''XF:2'' None"

subsection \<open>What a first access constructs\<close>

text \<open>The \<^verbatim>\<open>EpicsSignal\<close> that \<^verbatim>\<open>ADSignal.check_exists\<close> leaves in the heap when the
  formatted suffix \<open>p\<close> is not cached yet, its \<^verbatim>\<open>__doc__\<close> assigned.\<close>

definition new_signal :: "ADSignal_desc \<Rightarrow> ADBase_obj \<Rightarrow> string \<Rightarrow> EpicsSignal_obj" where
  "new_signal a ob p =
     \<lparr>read_pv = (if has_rbv a then ad_prefix ob @ p @ ''_RBV'' else ad_prefix ob @ p),
      write_pv = (if has_rbv a then Some (ad_prefix ob @ p) else None),
      es_name = ad_name ob @ ''.'' @ name_from_pv p,
      es_kwargs = ad_kwargs a,
      es_doc = (case doc a of Some d \<Rightarrow> d | None \<Rightarrow> dunder_doc a)\<rparr>"


subsection \<open>More of the concrete run\<close>

text \<open>The state after \<^verbatim>\<open>motor1.val\<close>; an \<^verbatim>\<open>ADBase\<close> object, the descriptor
  \<^verbatim>\<open>array_counter\<close> of \<^verbatim>\<open>NDArrayDriver\<close>, and the state after its first access.\<close>

definition st_val :: pystate where
  "st_val = snd (Signal_get format_base_name Motor_val (Some motor1) st_Motor)"

definition cam :: ADBase_obj where
  "cam = fst (ADBase_init ''XF:CAM:'' [] st0)"

definition st_cam :: pystate where
  "st_cam = snd (ADBase_init ''XF:CAM:'' [] st0)"

definition array_counter :: ADSignal_desc where
  "array_counter = projr (ADSignal_init ''ArrayCounter'' True None [])"

definition st_cam1 :: pystate where
  "st_cam1 = snd (ADSignal_get format_self array_counter (Some cam) st_cam)"

subsection \<open>Reading the selected fields\<close>





text \<open>Objects that are not dictionaries are never changed, and dictionaries stay
  dictionaries.\<close>

definition is_dict :: "hobj \<Rightarrow> bool" where
  "is_dict ob = (case ob of Dict d \<Rightarrow> True | _ \<Rightarrow> False)"



subsection \<open>Group objects\<close>

text \<open>What a cache holds under a key, and a cache whose stored references are pairwise
  different and all allocated, as they are when every stored object was created for its
  entry. The empty cache of a new object is one, and accesses keep the property.\<close>

definition cache_lookup :: "pystate \<Rightarrow> ref \<Rightarrow> key \<Rightarrow> ref option" where
  "cache_lookup st c k = (case dict_at st c of None \<Rightarrow> None | Some d \<Rightarrow> map_of d k)"

definition cache_inj :: "pystate \<Rightarrow> ref \<Rightarrow> bool" where
  "cache_inj st c =
     (case dict_at st c of
        None \<Rightarrow> False
      | Some d \<Rightarrow> distinct (map snd d) \<and> list_all (\<lambda>(k, r). r < length (heap st)) d)"

text \<open>The docstring's example: a descriptor whose suffix depends on \<^verbatim>\<open>self.channel\<close>, a
  group of it and \<^verbatim>\<open>array_counter\<close>, the camera with channel 3 and with channel 4, and
  the state after the group's first access with channel 3.\<close>

definition ch_signal :: ADSignal_desc where
  "ch_signal = projr (ADSignal_init ''Ch{self.channel}'' False None [])"

definition grp :: ADSignalGroup_prop where
  "grp = ADSignalGroup [array_counter, ch_signal] [(''doc'', ''both'')]"

definition cam3 :: ADBase_obj where
  "cam3 = cam\<lparr>attrs := [(''channel'', ''3'')]\<rparr>"

definition cam4 :: ADBase_obj where
  "cam4 = cam\<lparr>attrs := [(''channel'', ''4'')]\<rparr>"

definition st_grp :: pystate where
  "st_grp = snd (fget format_self grp cam3 st_cam)"

subsection \<open>Writable fields in declaration order\<close>

text \<open>The names a class body declares with \<^verbatim>\<open>SignalRW\<close>, in the order of the
  declarations.\<close>

fun writable_decls :: "decl list \<Rightarrow> string list" where
  "writable_decls [] = []"
| "writable_decls (DeclSignal n k t # ds) =
     (if k = EpicsSignalLiteRW then n # writable_decls ds else writable_decls ds)"
| "writable_decls (DeclOther n # ds) = writable_decls ds"

section \<open>Properties\<close>

text \<open>Definitions to unfold when the model is run on the concrete classes and objects.\<close>

lemmas run_defs =
  st0_def Motor_def st_Motor_def motor1_def motor2_def Motor_val_def Motor_body_def
  ABC_def st_ABC_def abc1_def abc_body_def egu_down_def
  st_val_def cam_def st_cam_def array_counter_def st_cam1_def
  class_statement_def Signal_init_def ADSignal_init_def startswith_def SignalMeta_new_def
  alloc_def Base_init_def ADBase_init_def name_from_pv_def rstrip_colon_def char_lower_def
  Base_getattr_def Signal_get_def ADSignal_get_def check_exists_def
  format_base_name_def format_self_def self_attr_def
  dict_at_def dict_store_def set_doc_def new_channel_def
  chan_get_def chan_put_def chan_pvname_def chan_connected_def not_connected_error_def
  Base_read_def Base_describe_def SettableBase_set_def Signature_bind_def Let_def

text \<open>Storing under a key a dictionary does not have appends the entry.\<close>

lemma update_absent: "map_of d k = None \<Longrightarrow> AList.update k v d = d @ [(k, v)]"
  by (induction d) (auto split: if_splits)

subsection \<open>Documentation lookup\<close>











subsection \<open>Access on the class\<close>

text \<open>C10. Accessed on the class, with no instance, a \<^verbatim>\<open>Signal\<close> or \<^verbatim>\<open>SignalRW\<close>
  descriptor returns \<^verbatim>\<open>None\<close> and an \<^verbatim>\<open>ADSignal\<close> descriptor returns itself; the state
  is the one before the access, so no channel is constructed and no dictionary is read or
  written.\<close>

theorem class_access_no_channel:
  "Signal_get fmt d None st = (Inr PyNone, st)
   \<and> ADSignal_get fmt' a None st = (Inr (VADSignal a), st)
   \<and> check_exists fmt' a None st = (Inr (VADSignal a), st)"
  by (simp add: Signal_get_def ADSignal_get_def check_exists_def)

theorem class_access_no_channel_witness:
  "Signal_get format_base_name Motor_val None st0 = (Inr PyNone, st0)
   \<and> ADSignal_get format_self (projr (ADSignal_init ''ArrayCounter'' True None [])) None st0 =
       (Inr (VADSignal (projr (ADSignal_init ''ArrayCounter'' True None []))), st0)"
  using class_access_no_channel
      [of format_base_name Motor_val st0 format_self
        "projr (ADSignal_init ''ArrayCounter'' True None [])"]
  by simp

subsection \<open>Template validation\<close>

text \<open>C5, as the code has it. A template without the text \<^verbatim>\<open>{base_name}\<close> makes the
  constructor of \<^verbatim>\<open>Signal\<close> and of \<^verbatim>\<open>SignalRW\<close> raise \<^verbatim>\<open>ValueError\<close>, and no
  descriptor is produced. The constructor of \<^verbatim>\<open>ADSignal\<close> does not look at its template
  and produces a descriptor for every string.\<close>

theorem template_check:
  "\<not> str_in ''{base_name}'' t \<Longrightarrow>
   Signal_init k t as kws =
     Inl (ValueError (''pv_template must contain '' @ [CHR 0x27] @ ''{base_name}'' @ [CHR 0x27]))
   \<and> \<not> isl (ADSignal_init t rbv d kws')"
  by (simp add: Signal_init_def ADSignal_init_def)

theorem template_check_witness:
  "\<not> str_in ''{base_name}'' ''XF:1.VAL''
   \<and> Signal_init EpicsSignalLiteRW ''XF:1.VAL'' [] [] =
     Inl (ValueError (''pv_template must contain '' @ [CHR 0x27] @ ''{base_name}'' @ [CHR 0x27]))
   \<and> \<not> isl (ADSignal_init ''XF:1.VAL'' False None [])"
proof -
  have h: "\<not> str_in ''{base_name}'' ''XF:1.VAL''" by (simp add: startswith_def)
  show ?thesis
    using h template_check [OF h, of EpicsSignalLiteRW "[]" "[]" False None "[]"] by simp
qed

text \<open>C5 as stated, for any descriptor variant, fails for \<^verbatim>\<open>ADSignal\<close>: the module's own
  \<^verbatim>\<open>ADSignal('ArrayCounter', has_rbv=True)\<close> has no placeholder and is constructed.\<close>

theorem template_check_counterexample:
  "\<not> str_in ''{base_name}'' ''ArrayCounter''
   \<and> ADSignal_init ''ArrayCounter'' True None [] =
       Inr \<lparr>pv = ''ArrayCounter'', has_rbv = True, doc = None, ad_kwargs = [],
            dunder_doc = ''[Lazy property for ArrayCounter]''\<rparr>"
  by (simp add: ADSignal_init_def startswith_def)

subsection \<open>Selected fields\<close>



subsection \<open>Class definition\<close>

lemma signal_items_keys: "set (map fst (signal_items d)) \<subseteq> set (map fst d)"
  by (induction d rule: signal_items.induct) auto

lemma signal_items_distinct:
  "distinct (map fst d) \<Longrightarrow> distinct (map fst (signal_items d))"
proof (induction d rule: signal_items.induct)
  case 1
  then show ?case by simp
next
  case (2 k d kvs)
  then show ?case using signal_items_keys [of kvs] by auto
next
  case (3 k kvs)
  then show ?case by simp
qed

lemma map_of_signal_items:
  "distinct (map fst d) \<Longrightarrow>
   map_of (signal_items d) n =
     (case map_of d n of Some (SigAttr x) \<Rightarrow> Some x | _ \<Rightarrow> None)"
proof (induction d rule: signal_items.induct)
  case 1
  then show ?case by simp
next
  case (2 k x kvs)
  then show ?case
    by (auto split: option.splits attr.splits simp: map_of_eq_None_iff image_iff)
next
  case (3 k kvs)
  then show ?case
    by (auto split: option.splits attr.splits simp: map_of_eq_None_iff image_iff)
qed

text \<open>Running a class body whose constructors all succeed: every name ends up bound to
  the value of its last declaration.\<close>

lemma exec_body_ok:
  "list_all decl_ok body \<Longrightarrow> distinct (map fst ns) \<Longrightarrow>
   \<exists>ns'. exec_body body ns = Inr ns' \<and> distinct (map fst ns')
     \<and> map_of ns' = map_of ns ++ last_decl body"
proof (induction body arbitrary: ns)
  case Nil
  then show ?case by (simp add: last_decl_def)
next
  case (Cons d ds)
  let ?ns1 = "AList.update (decl_name d) (decl_value d) ns"
  have step: "exec_body (d # ds) ns = exec_body ds ?ns1"
    using Cons.prems(1) by (cases d) (simp_all add: Signal_init_def)
  have "distinct (map fst ?ns1)"
    using Cons.prems(2) by (rule distinct_update)
  with Cons.IH [of ?ns1] Cons.prems(1)
  obtain ns' where r: "exec_body ds ?ns1 = Inr ns'" "distinct (map fst ns')"
    "map_of ns' = map_of ?ns1 ++ last_decl ds"
    by auto
  have "map_of ?ns1 ++ last_decl ds = map_of ns ++ last_decl (d # ds)"
    by (simp add: last_decl_def update_conv' map_add_assoc [symmetric] map_add_def fun_eq_iff
        split: option.splits)
  with r step show ?case by simp
qed

text \<open>C9, as the code has it. \<^verbatim>\<open>SignalMeta.__new__\<close> receives the namespace of the
  class body, a dictionary, in which a second binding of a name has already replaced the
  first; nothing looks for duplicates. A class body whose descriptor constructors succeed
  always yields a class, whether or not a name is declared twice: each name is bound to its
  last declaration and is registered once.\<close>

theorem later_declaration_wins:
  "list_all decl_ok body \<Longrightarrow>
   \<exists>c st'. class_statement name body st = (Inr c, st')
     \<and> map_of (sc_dict c) = last_decl body
     \<and> (\<forall>n. map_of (signals c) n =
            (case last_decl body n of Some (SigAttr d) \<Rightarrow> Some d | _ \<Rightarrow> None))
     \<and> distinct (signal_names c)"
proof -
  assume ok: "list_all decl_ok body"
  from exec_body_ok [OF ok, of "[]"]
  obtain ns' where r: "exec_body body [] = Inr ns'" "distinct (map fst ns')"
    "map_of ns' = last_decl body"
    by auto
  then show ?thesis
    by (simp add: class_statement_def SignalMeta_new_def Let_def alloc_def signal_items_distinct
        map_of_signal_items)
qed

theorem later_declaration_wins_witness:
  "list_all decl_ok Motor_body
   \<and> (\<exists>c st'. class_statement ''Motor'' Motor_body st0 = (Inr c, st')
        \<and> map_of (sc_dict c) = last_decl Motor_body
        \<and> (\<forall>n. map_of (signals c) n =
               (case last_decl Motor_body n of Some (SigAttr d) \<Rightarrow> Some d | _ \<Rightarrow> None))
        \<and> distinct (signal_names c))"
proof -
  have h: "list_all decl_ok Motor_body" by (simp add: Motor_body_def startswith_def)
  show ?thesis using h later_declaration_wins [OF h, of "''Motor''" st0] by simp
qed

text \<open>C9 as stated fails on the module's own class \<^verbatim>\<open>Motor\<close>, whose body declares
  \<^verbatim>\<open>val\<close> twice: the class statement completes and registers \<^verbatim>\<open>val\<close> once.\<close>

theorem duplicate_declaration_counterexample:
  "\<not> distinct (map decl_name Motor_body)
   \<and> \<not> isl (fst (class_statement ''Motor'' Motor_body st0))
   \<and> signal_names (projr (fst (class_statement ''Motor'' Motor_body st0))) =
       [''val'', ''egu'', ''movn'', ''dmov'', ''stop'']"
  by (simp add: Motor_body_def class_statement_def Signal_init_def startswith_def
      SignalMeta_new_def alloc_def st0_def)

subsection \<open>The generic \<^verbatim>\<open>set\<close>\<close>

lemma bind_positional_zip:
  "length vs \<le> length ps \<Longrightarrow>
   bind_positional ps vs [] = Inr (zip ps vs, drop (length vs) ps)"
proof (induction ps vs "[] :: (string \<times> int) list" rule: bind_positional.induct)
  case (1 ps)
  then show ?case by simp
next
  case (2 a as)
  then show ?case by simp
next
  case (3 p ps a as)
  then show ?case by simp
qed

lemma filter_zip_other:
  "p \<notin> set ps \<Longrightarrow> filter (\<lambda>(k, _). k \<noteq> p) (zip ps vs) = zip ps vs"
  by (induction ps arbitrary: vs) (auto simp: zip_Cons1 split: list.splits)

lemma bind_keywords_zip:
  "distinct ps \<Longrightarrow> length vs = length ps \<Longrightarrow>
   bind_keywords ps (zip ps vs) = Inr (zip ps vs, [])"
proof (induction ps arbitrary: vs)
  case Nil
  then show ?case by simp
next
  case (Cons p ps)
  then obtain v vs' where vs: "vs = v # vs'" by (cases vs) auto
  with Cons show ?case by (simp add: filter_zip_other)
qed

lemma bind_keywords_missing:
  "ps \<noteq> [] \<Longrightarrow> bind_keywords ps [] = Inl (TypeError (MissingRequired (hd ps)))"
  by (cases ps) auto

lemma Signature_bind_positional:
  "length vs = length ps \<Longrightarrow> Signature_bind ps vs [] = Inr (zip ps vs)"
  by (simp add: Signature_bind_def bind_positional_zip)

lemma Signature_bind_keywords:
  "distinct ps \<Longrightarrow> length vs = length ps \<Longrightarrow>
   Signature_bind ps [] (zip ps vs) = Inr (zip ps vs)"
  by (simp add: Signature_bind_def bind_keywords_zip)

lemma Signature_bind_too_few:
  "length vs < length ps \<Longrightarrow>
   Signature_bind ps vs [] = Inl (TypeError (MissingRequired (ps ! length vs)))"
  by (simp add: Signature_bind_def bind_positional_zip bind_keywords_missing hd_drop_conv_nth)

text \<open>Attribute access sends nothing to the EPICS client; a successful \<^verbatim>\<open>put\<close> sends
  one write and returns its handle.\<close>

lemma Signal_get_put_log:
  "Signal_get fmt d i st = (r, st') \<Longrightarrow> put_log st' = put_log st"
  by (auto simp: Signal_get_def alloc_def dict_store_def dict_at_def
      split: option.splits sum.splits if_splits hobj.splits)

lemma Base_getattr_put_log:
  "Base_getattr fmt inst n st = (r, st') \<Longrightarrow> put_log st' = put_log st"
  by (auto simp: Base_getattr_def split: if_splits option.splits attr.splits
      dest: Signal_get_put_log)

lemma chan_put_log:
  "chan_put w v x st = (Inr h, st') \<Longrightarrow> snd h = x \<and> put_log st' = put_log st @ [h]"
  by (auto simp: chan_put_def split: pyval.splits if_splits hobj.splits)

lemma set_loop_log:
  "set_loop fmt w inst bound acc st = (Inr hs, st') \<Longrightarrow>
   \<exists>new. hs = acc @ new \<and> map snd new = map snd bound \<and> put_log st' = put_log st @ new"
proof (induction bound arbitrary: acc st)
  case Nil
  then show ?case by simp
next
  case (Cons b bound)
  obtain name val where b: "b = (name, val)" by (cases b)
  from Cons.prems b obtain sig st1 h st2 where
    g: "Base_getattr fmt inst name st = (Inr sig, st1)" and
    p: "chan_put w sig val st1 = (Inr h, st2)" and
    r: "set_loop fmt w inst bound (acc @ [h]) st2 = (Inr hs, st')"
    by (auto split: prod.splits sum.splits)
  from Cons.IH [OF r] obtain new where
    n: "hs = (acc @ [h]) @ new" "map snd new = map snd bound" "put_log st' = put_log st2 @ new"
    by blast
  from Base_getattr_put_log [OF g] chan_put_log [OF p] n b
  show ?case by (intro exI [of _ "h # new"]) simp
qed

text \<open>The calls of \<^verbatim>\<open>set\<close> in terms of the synthesized signature \<open>ps\<close>.\<close>

lemma set_by_signature:
  assumes "default_sig_for_set (obj_class inst) = ps" and "distinct ps"
    and "length vs = length ps"
  shows "SettableBase_set fmt w inst vs [] st = set_loop fmt w inst (zip ps vs) [] st
    \<and> SettableBase_set fmt w inst [] (zip ps vs) st = set_loop fmt w inst (zip ps vs) [] st
    \<and> (\<forall>hs st'. SettableBase_set fmt w inst vs [] st = (Inr hs, st') \<longrightarrow>
          length hs = length ps \<and> map snd hs = vs \<and> put_log st' = put_log st @ hs)
    \<and> (\<forall>n < length ps. SettableBase_set fmt w inst (take n vs) [] st =
          (Inl (TypeError (MissingRequired (ps ! n))), st))"
proof (intro conjI allI impI)
  show e1: "SettableBase_set fmt w inst vs [] st = set_loop fmt w inst (zip ps vs) [] st"
    using assms by (simp add: SettableBase_set_def Signature_bind_positional)
  show "SettableBase_set fmt w inst [] (zip ps vs) st = set_loop fmt w inst (zip ps vs) [] st"
    using assms by (simp add: SettableBase_set_def Signature_bind_keywords)
  fix hs st'
  assume "SettableBase_set fmt w inst vs [] st = (Inr hs, st')"
  with e1 have "set_loop fmt w inst (zip ps vs) [] st = (Inr hs, st')" by simp
  from set_loop_log [OF this] assms(3)
  show "length hs = length ps" "map snd hs = vs" "put_log st' = put_log st @ hs"
    by (auto dest: arg_cong [where f = length])
next
  fix n assume "n < length ps"
  then show "SettableBase_set fmt w inst (take n vs) [] st =
          (Inl (TypeError (MissingRequired (ps ! n))), st)"
    using assms by (simp add: SettableBase_set_def Signature_bind_too_few)
qed

lemma exec_body_distinct:
  "distinct (map fst ns @ map decl_name body) \<Longrightarrow> exec_body body ns = Inr ns' \<Longrightarrow>
   ns' = ns @ map (\<lambda>d. (decl_name d, decl_value d)) body"
proof (induction body arbitrary: ns)
  case Nil
  then show ?case by simp
next
  case (Cons d ds)
  let ?ns1 = "ns @ [(decl_name d, decl_value d)]"
  from Cons.prems(1) have "map_of ns (decl_name d) = None"
    by (auto simp: map_of_eq_None_iff)
  then have upd: "AList.update (decl_name d) (decl_value d) ns = ?ns1"
    by (rule update_absent)
  from Cons.prems(2) upd have step: "exec_body ds ?ns1 = Inr ns'"
    by (cases d) (auto simp: Signal_init_def split: if_splits)
  from Cons.prems(1) have "distinct (map fst ?ns1 @ map decl_name ds)" by auto
  from Cons.IH [OF this step] show ?case by simp
qed

lemma writable_of_items:
  "map fst (filter (\<lambda>(k, v). sig_class v = EpicsSignalLiteRW)
     (signal_items (map (\<lambda>d. (decl_name d, decl_value d)) body))) = writable_decls body"
  by (induction body rule: writable_decls.induct) auto

lemma writable_decls_names: "set (writable_decls body) \<subseteq> set (map decl_name body)"
  by (induction body rule: writable_decls.induct) auto

lemma writable_decls_distinct:
  "distinct (map decl_name body) \<Longrightarrow> distinct (writable_decls body)"
proof (induction body rule: writable_decls.induct)
  case 1
  then show ?case by simp
next
  case (2 n k t ds)
  then show ?case using writable_decls_names [of ds] by auto
next
  case (3 n ds)
  then show ?case by simp
qed

text \<open>The signature of a class whose body declares every name once.\<close>

lemma signature_of_body:
  assumes "class_statement name body s0 = (Inr c, s1)" and "distinct (map decl_name body)"
  shows "default_sig_for_set c = writable_decls body"
proof -
  from assms(1) obtain ns where e: "exec_body body [] = Inr ns"
    and c: "c = fst (SignalMeta_new name ns s0)"
    by (auto simp: class_statement_def split: sum.splits prod.splits)
  from exec_body_distinct [of "[]" body ns] assms(2) e
  have "ns = map (\<lambda>d. (decl_name d, decl_value d)) body" by simp
  with c show ?thesis
    by (simp add: SignalMeta_new_def Let_def alloc_def writable_of_items)
qed

lemma abc1_class: "class_statement ''ABC'' abc_body st0 = (Inr (obj_class abc1), st_ABC)"
  by (simp add: run_defs)

lemma abc1_set_run:
  "fst (SettableBase_set format_base_name egu_down abc1 [1, 2, 3] [] st_ABC) =
     Inr [(''XF:2.A'', 1), (''XF:2.B'', 2), (''XF:2.C'', 3)]"
  by (simp add: run_defs)

text \<open>C3. Let a class body declare every name once, and let \<open>ps\<close> be the names it
  declares writable, in declaration order (for the claim, \<^verbatim>\<open>[a, b, c]\<close>). On an object
  of the class, passing one value per writable field by position and passing the same
  values by keyword run the same loop over the same field-value pairs, in declaration
  order; when the call succeeds it has sent one write per field and returns their handles
  in order. Passing fewer positional values fails in \<^verbatim>\<open>Signature.bind\<close> with
  \<^verbatim>\<open>TypeError\<close> for the first missing field, and the state is untouched: no channel
  was looked up, created or written. The class namespace keeps declaration order, as
  Python's \<^verbatim>\<open>dict\<close> does since version 3.7.\<close>

theorem set_signature_fidelity:
  assumes "class_statement name body s0 = (Inr (obj_class inst), s1)"
    and "distinct (map decl_name body)"
    and "writable_decls body = ps"
    and "length vs = length ps"
  shows "SettableBase_set fmt w inst vs [] st = set_loop fmt w inst (zip ps vs) [] st
    \<and> SettableBase_set fmt w inst [] (zip ps vs) st = set_loop fmt w inst (zip ps vs) [] st
    \<and> (\<forall>hs st'. SettableBase_set fmt w inst vs [] st = (Inr hs, st') \<longrightarrow>
          length hs = length ps \<and> map snd hs = vs \<and> put_log st' = put_log st @ hs)
    \<and> (\<forall>n < length ps. SettableBase_set fmt w inst (take n vs) [] st =
          (Inl (TypeError (MissingRequired (ps ! n))), st))"
proof -
  from signature_of_body [OF assms(1,2)] assms(3)
  have sig: "default_sig_for_set (obj_class inst) = ps" by simp
  from writable_decls_distinct [OF assms(2)] assms(3) have "distinct ps" by simp
  from set_by_signature [OF sig this assms(4)] show ?thesis .
qed

theorem set_signature_fidelity_witness:
  "class_statement ''ABC'' abc_body st0 = (Inr (obj_class abc1), st_ABC)
   \<and> distinct (map decl_name abc_body)
   \<and> writable_decls abc_body = [''a'', ''b'', ''c'']
   \<and> SettableBase_set format_base_name egu_down abc1 [1, 2, 3] [] st_ABC =
       SettableBase_set format_base_name egu_down abc1 []
         [(''a'', 1), (''b'', 2), (''c'', 3)] st_ABC
   \<and> fst (SettableBase_set format_base_name egu_down abc1 [1, 2, 3] [] st_ABC) =
       Inr [(''XF:2.A'', 1), (''XF:2.B'', 2), (''XF:2.C'', 3)]
   \<and> SettableBase_set format_base_name egu_down abc1 [1, 2] [] st_ABC =
       (Inl (TypeError (MissingRequired ''c'')), st_ABC)"
proof -
  have d: "distinct (map decl_name abc_body)" by (simp add: abc_body_def)
  have p: "writable_decls abc_body = [''a'', ''b'', ''c'']" by (simp add: abc_body_def)
  have l: "length [1, 2, 3 :: int] = length [''a'', ''b'', ''c'']" by simp
  note t = set_signature_fidelity
    [OF abc1_class d p l, of format_base_name egu_down st_ABC]
  from t have "SettableBase_set format_base_name egu_down abc1 [1, 2, 3] [] st_ABC =
       SettableBase_set format_base_name egu_down abc1 []
         [(''a'', 1), (''b'', 2), (''c'', 3)] st_ABC"
    by simp
  moreover from t
  have "SettableBase_set format_base_name egu_down abc1 (take 2 [1, 2, 3]) [] st_ABC =
       (Inl (TypeError (MissingRequired ([''a'', ''b'', ''c''] ! 2))), st_ABC)"
    by (elim conjE allE [of _ 2]) simp
  ultimately show ?thesis using abc1_class abc1_set_run d p by simp
qed

subsection \<open>Dictionaries in the heap\<close>

lemma dict_at_valid: "dict_at st c = Some d \<Longrightarrow> c < length (heap st) \<and> heap st ! c = Dict d"
  by (auto simp: dict_at_def split: if_splits hobj.splits)

lemma dict_at_alloc:
  "dict_at st c = Some d \<Longrightarrow> dict_at (snd (alloc ob st)) c = Some d"
  by (auto simp: dict_at_def alloc_def nth_append split: if_splits hobj.splits)

lemma dict_at_store_same:
  "dict_at st c = Some d \<Longrightarrow> dict_at (dict_store st c k v) c = Some (AList.update k v d)"
  by (auto simp: dict_at_def dict_store_def split: if_splits hobj.splits)

lemma dict_at_set_doc:
  "dict_at (set_doc st r x) c = dict_at st c"
  by (auto simp: dict_at_def set_doc_def nth_list_update split: if_splits hobj.splits)


subsection \<open>The cached channel\<close>





lemma check_exists_miss:
  assumes "fmt (pv a) ob = Inr p"
    and "dict_at st (ad_signals ob) = Some dct" and "map_of dct (KStr p) = None"
  shows "check_exists fmt a (Some ob) st =
     (Inr (VRef (length (heap st))),
      st\<lparr>heap := (heap st)[ad_signals ob := Dict (dct @ [(KStr p, length (heap st))])]
             @ [EpicsSig (new_signal a ob p)]\<rparr>)"
proof -
  have "ad_signals ob < length (heap st)" "heap st ! ad_signals ob = Dict dct"
    using dict_at_valid [OF assms(2)] by simp_all
  then show ?thesis
    using assms update_absent [OF assms(3)]
    by (simp add: check_exists_def alloc_def dict_store_def Let_def set_doc_def
        dict_at_def nth_append nth_list_update list_update_append new_signal_def)
qed








subsection \<open>Who owns a cache\<close>









subsection \<open>Reading with one channel down\<close>




lemma chan_connected_not_dict: "chan_connected w ob \<Longrightarrow> \<not> is_dict ob"
  by (auto simp: chan_connected_def is_dict_def split: hobj.splits)



















subsection \<open>Group objects and their keys\<close>

lemma check_exists_outcome:
  assumes "check_exists fmt a (Some ob) st = (res, st1)"
  obtains (unchanged) "st1 = st"
    "\<And>v. res = Inr v \<Longrightarrow> \<exists>r p. v = VRef r \<and> cache_lookup st (ad_signals ob) (KStr p) = Some r"
  | (created) p dct where "fmt (pv a) ob = Inr p"
      "dict_at st (ad_signals ob) = Some dct" "map_of dct (KStr p) = None"
      "res = Inr (VRef (length (heap st)))"
      "st1 = st\<lparr>heap := (heap st)[ad_signals ob := Dict (dct @ [(KStr p, length (heap st))])]
             @ [EpicsSig (new_signal a ob p)]\<rparr>"
proof (cases "fmt (pv a) ob")
  case (Inl e)
  with assms show ?thesis by (intro unchanged) (auto simp: check_exists_def)
next
  case (Inr p)
  show ?thesis
  proof (cases "dict_at st (ad_signals ob)")
    case None
    with Inr assms show ?thesis by (intro unchanged) (auto simp: check_exists_def)
  next
    case (Some dct)
    show ?thesis
    proof (cases "map_of dct (KStr p)")
      case None
      with check_exists_miss [of fmt a ob p st dct, OF Inr Some None] assms Inr Some
      show ?thesis by (intro created [of p dct]) auto
    next
      case (Some r)
      with Inr \<open>dict_at st (ad_signals ob) = Some dct\<close> assms
      show ?thesis by (intro unchanged) (auto simp: check_exists_def cache_lookup_def)
    qed
  qed
qed

lemma cache_inj_append:
  assumes "cache_inj st c" and "dict_at st c = Some dct"
    and "st1 = st\<lparr>heap := (heap st)[c := Dict (dct @ [(k, length (heap st))])] @ obs\<rparr>"
    and "obs \<noteq> []"
  shows "cache_inj st1 c \<and> dict_at st1 c = Some (dct @ [(k, length (heap st))])"
proof -
  from dict_at_valid [OF assms(2)] have c: "c < length (heap st)" by simp
  then have d1: "dict_at st1 c = Some (dct @ [(k, length (heap st))])"
    using assms(3) by (simp add: dict_at_def nth_append)
  from assms(1,2) have dist: "distinct (map snd dct)"
    and lt: "list_all (\<lambda>(k, r). r < length (heap st)) dct"
    by (simp_all add: cache_inj_def)
  from lt have "length (heap st) \<notin> snd ` set dct" by (auto simp: list_all_iff)
  moreover from lt assms(3) have "list_all (\<lambda>(k, r). r < length (heap st1)) dct"
    by (auto simp: list_all_iff)
  moreover from assms(3,4) have "length (heap st) < length (heap st1)"
    by (cases obs) auto
  ultimately show ?thesis using d1 dist by (simp add: cache_inj_def)
qed

lemma check_exists_inj:
  assumes "cache_inj st (ad_signals ob)"
    and "check_exists fmt a (Some ob) st = (res, st1)"
  shows "cache_inj st1 (ad_signals ob)
     \<and> length (heap st) \<le> length (heap st1)
     \<and> (\<forall>k. cache_lookup st1 (ad_signals ob) (KTuple k) = cache_lookup st (ad_signals ob) (KTuple k))"
  using assms(2)
proof (cases rule: check_exists_outcome)
  case unchanged
  with assms(1) show ?thesis by simp
next
  case (created p dct)
  from cache_inj_append [OF assms(1) created(2) created(5)] created(2,5)
  show ?thesis by (auto simp: cache_lookup_def map_add_def split: option.splits)
qed

lemma get_props_inj:
  assumes "cache_inj st (ad_signals ob)"
    and "get_props fmt ps ob st = (res, st1)"
  shows "cache_inj st1 (ad_signals ob)
     \<and> length (heap st) \<le> length (heap st1)
     \<and> (\<forall>k. cache_lookup st1 (ad_signals ob) (KTuple k) = cache_lookup st (ad_signals ob) (KTuple k))"
  using assms
proof (induction ps arbitrary: st res st1)
  case Nil
  then show ?case by simp
next
  case (Cons p ps)
  obtain r1 s1 where c: "check_exists fmt p (Some ob) st = (r1, s1)"
    by (cases "check_exists fmt p (Some ob) st")
  note i1 = check_exists_inj [OF Cons.prems(1) c]
  show ?case
  proof (cases r1)
    case (Inl e)
    with c Cons.prems(2) i1 show ?thesis by (simp add: ADSignal_get_def)
  next
    case (Inr v)
    obtain r2 s2 where g: "get_props fmt ps ob s1 = (r2, s2)"
      by (cases "get_props fmt ps ob s1")
    with c Inr Cons.prems(2) have "st1 = s2" by (auto simp: ADSignal_get_def split: sum.splits)
    with Cons.IH [OF _ g] i1 show ?thesis by auto
  qed
qed

lemma group_key_inj:
  assumes "cache_inj st (ad_signals ob)"
    and "group_key fmt g ob st = (res, st1)"
  shows "cache_inj st1 (ad_signals ob)
     \<and> length (heap st) \<le> length (heap st1)
     \<and> (\<forall>k. cache_lookup st1 (ad_signals ob) (KTuple k) = cache_lookup st (ad_signals ob) (KTuple k))"
proof -
  obtain r1 s1 where p: "get_props fmt (props g) ob st = (r1, s1)"
    by (cases "get_props fmt (props g) ob st")
  with assms(2) have "st1 = s1" by (auto simp: group_key_def split: sum.splits)
  with get_props_inj [OF assms(1) p] show ?thesis by simp
qed

lemma add_signal_props:
  "length (heap (add_signal g st v)) = length (heap st)
   \<and> dict_at (add_signal g st v) c = dict_at st c"
  by (auto simp: add_signal_def dict_at_def nth_list_update split: pyval.splits hobj.splits)

lemma foldl_add_signal_props:
  "length (heap (foldl (add_signal g) st vs)) = length (heap st)
   \<and> dict_at (foldl (add_signal g) st vs) c = dict_at st c"
  by (induction vs arbitrary: st) (simp_all add: add_signal_props)

lemma group_hit:
  assumes "group_key fmt g ob st = (Inr (sigs, k), sb)"
    and "cache_lookup sb (ad_signals ob) (KTuple k) = Some r"
  shows "group_check_exists fmt g ob st = (Inr (VRef r), sb)"
  using assms
  by (auto simp: group_check_exists_def cache_lookup_def split: option.splits)

lemma group_miss:
  assumes "group_key fmt g ob st = (Inr (sigs, k), sb)"
    and "cache_inj sb (ad_signals ob)"
    and "cache_lookup sb (ad_signals ob) (KTuple k) = None"
  shows "\<exists>st2. group_check_exists fmt g ob st = (Inr (VRef (length (heap sb))), st2)
     \<and> cache_lookup st2 (ad_signals ob) (KTuple k) = Some (length (heap sb))
     \<and> cache_inj st2 (ad_signals ob)
     \<and> length (heap st2) = Suc (length (heap sb))"
proof -
  let ?c = "ad_signals ob"
  let ?sg = "length (heap sb)"
  from assms(2) obtain d where d: "dict_at sb ?c = Some d"
    and dist: "distinct (map snd d)" and lt: "list_all (\<lambda>(k, r). r < length (heap sb)) d"
    by (auto simp: cache_inj_def split: option.splits)
  from assms(3) d have none: "map_of d (KTuple k) = None" by (simp add: cache_lookup_def)
  let ?s2 = "snd (alloc (SigGroup (grp_kwargs g) []) sb)"
  let ?s3 = "foldl (add_signal ?sg) ?s2 sigs"
  let ?s4 = "dict_store ?s3 ?c (KTuple k) ?sg"
  have r: "group_check_exists fmt g ob st = (Inr (VRef ?sg), ?s4)"
    using assms(1) d none by (simp add: group_check_exists_def alloc_def Let_def)
  have d3: "dict_at ?s3 ?c = Some d"
    using foldl_add_signal_props [of ?sg ?s2 sigs ?c] dict_at_alloc [OF d] by simp
  have l3: "length (heap ?s3) = Suc (length (heap sb))"
    using foldl_add_signal_props [of ?sg ?s2 sigs ?c] by (simp add: alloc_def)
  from dict_at_store_same [OF d3] update_absent [OF none]
  have d4: "dict_at ?s4 ?c = Some (d @ [(KTuple k, ?sg)])" by simp
  have l4: "length (heap ?s4) = Suc (length (heap sb))"
    using l3 d3 by (simp add: dict_store_def)
  from lt have "?sg \<notin> snd ` set d" by (auto simp: list_all_iff)
  moreover from lt l4 have "list_all (\<lambda>(k, r). r < length (heap ?s4)) d"
    by (auto simp: list_all_iff)
  ultimately have "cache_inj ?s4 ?c" using d4 dist l4 by (simp add: cache_inj_def)
  with r d4 l4 none show ?thesis by (simp add: cache_lookup_def map_add_def)
qed

lemma cache_inj_keys:
  assumes "cache_inj st c" and "cache_lookup st c k = Some r"
    and "cache_lookup st c k' = Some r"
  shows "k = k'"
proof -
  from assms obtain d where d: "dict_at st c = Some d" and dist: "distinct (map snd d)"
    and m: "map_of d k = Some r" "map_of d k' = Some r"
    by (auto simp: cache_inj_def cache_lookup_def split: option.splits)
  from m have in1: "(k, r) \<in> set d" and in2: "(k', r) \<in> set d"
    by (auto dest: map_of_SomeD)
  from dist have "inj_on snd (set d)" by (simp add: distinct_map)
  from inj_onD [OF this _ in1 in2] show ?thesis by simp
qed

lemma cache_inj_valid:
  assumes "cache_inj st c" and "cache_lookup st c k = Some r"
  shows "r < length (heap st)"
proof -
  from assms obtain d where "list_all (\<lambda>(k, r). r < length (heap st)) d" "map_of d k = Some r"
    by (auto simp: cache_inj_def cache_lookup_def split: option.splits)
  then show ?thesis by (auto simp: list_all_iff dest: map_of_SomeD)
qed

lemma group_first:
  assumes "cache_inj st (ad_signals ob)"
    and "group_check_exists fmt g ob st = (Inr v, st1)"
    and "group_key fmt g ob st = (Inr (sigs, k), sa)"
  shows "\<exists>r. v = VRef r \<and> cache_lookup st1 (ad_signals ob) (KTuple k) = Some r
           \<and> cache_inj st1 (ad_signals ob)"
proof -
  note inj = group_key_inj [OF assms(1,3)]
  show ?thesis
  proof (cases "cache_lookup sa (ad_signals ob) (KTuple k)")
    case None
    from group_miss [OF assms(3) _ None] inj assms(2) show ?thesis by auto
  next
    case (Some r)
    from group_hit [OF assms(3) Some] assms(2) inj Some show ?thesis by auto
  qed
qed

lemmas grp_defs =
  grp_def cam3_def cam4_def ch_signal_def st_grp_def fget_def group_check_exists_def
  group_key_def ADSignalGroup_def signal_pvname_def add_signal_def

lemma grp_first: "fget format_self grp cam3 st_cam = (Inr (VRef 3), st_grp)"
  by (simp add: grp_defs run_defs)

lemma grp_key3:
  "fst (group_key format_self grp cam3 st_cam) =
     Inr ([VRef 1, VRef 2], [''XF:CAM:ArrayCounter_RBV'', ''XF:CAM:Ch3''])"
  by (simp add: grp_defs run_defs)

lemma grp_key3_again:
  "group_key format_self grp cam3 st_grp =
     (Inr ([VRef 1, VRef 2], [''XF:CAM:ArrayCounter_RBV'', ''XF:CAM:Ch3'']), st_grp)"
  by (simp add: grp_defs run_defs)

lemma grp_key4:
  "fst (group_key format_self grp cam4 st_grp) =
     Inr ([VRef 1, VRef 4], [''XF:CAM:ArrayCounter_RBV'', ''XF:CAM:Ch4''])"
  by (simp add: grp_defs run_defs)

lemma grp_second4: "fst (fget format_self grp cam4 st_grp) = Inr (VRef 5)"
  by (simp add: grp_defs run_defs)

lemma cam_cache_inj: "cache_inj st_cam (ad_signals cam3)"
  by (simp add: cache_inj_def grp_defs run_defs)

lemma pair_of_fst: "fst p = a \<Longrightarrow> p = (a, snd p)"
  by auto

text \<open>C7. Let a group be accessed on an object whose cache stores pairwise different,
  allocated references, and let it be accessed again on the same object, whose attributes
  may have changed in between. The key of an access is the tuple of the members'
  \<^verbatim>\<open>pvname\<close>, in the order of the members. If the second key equals the first, the
  second access returns the group object of the first and creates none. If the keys
  differ, in one member or more, the second access returns a different object; and
  whenever the second key is not in the cache, that object is created by the access, at a
  fresh reference.\<close>

theorem group_key_stability:
  assumes "cache_inj st (ad_signals ob)"
    and "fget fmt g ob st = (Inr v1, st1)"
    and "group_key fmt g ob st = (Inr (sigs1, k1), sa)"
    and "ad_signals ob' = ad_signals ob"
    and "group_key fmt g ob' st1 = (Inr (sigs2, k2), sb)"
  shows "(k2 = k1 \<longrightarrow> fget fmt g ob' st1 = (Inr v1, sb))
    \<and> (k2 \<noteq> k1 \<longrightarrow> (\<exists>v2 st2. fget fmt g ob' st1 = (Inr v2, st2) \<and> v2 \<noteq> v1))
    \<and> (cache_lookup sb (ad_signals ob) (KTuple k2) = None \<longrightarrow>
         (\<exists>st2. fget fmt g ob' st1 = (Inr (VRef (length (heap sb))), st2)
            \<and> length (heap st2) = Suc (length (heap sb))))"
proof -
  let ?c = "ad_signals ob"
  from group_first [OF assms(1) _ assms(3)] assms(2) obtain g1 where
    v1: "v1 = VRef g1" and c1: "cache_lookup st1 ?c (KTuple k1) = Some g1"
    and inj1: "cache_inj st1 ?c"
    by (auto simp: fget_def)
  from inj1 assms(4) have inj1': "cache_inj st1 (ad_signals ob')" by simp
  from group_key_inj [OF inj1' assms(5)] assms(4) c1 have
    injb: "cache_inj sb ?c" and cb: "cache_lookup sb ?c (KTuple k1) = Some g1"
    by simp_all
  have same: "fget fmt g ob' st1 = (Inr v1, sb)" if "k2 = k1"
    using group_hit [OF assms(5)] cb assms(4) that v1 by (simp add: fget_def)
  have miss: "\<exists>st2. fget fmt g ob' st1 = (Inr (VRef (length (heap sb))), st2)
            \<and> length (heap st2) = Suc (length (heap sb))"
    if "cache_lookup sb ?c (KTuple k2) = None"
    using group_miss [OF assms(5)] injb that assms(4) by (auto simp: fget_def)
  have diff: "\<exists>v2 st2. fget fmt g ob' st1 = (Inr v2, st2) \<and> v2 \<noteq> v1" if ne: "k2 \<noteq> k1"
  proof (cases "cache_lookup sb ?c (KTuple k2)")
    case None
    from cache_inj_valid [OF injb cb] have "g1 \<noteq> length (heap sb)" by simp
    with miss [OF None] v1 show ?thesis by auto
  next
    case (Some r2)
    from cache_inj_keys [OF injb Some, of "KTuple k1"] cb ne have "r2 \<noteq> g1" by auto
    with group_hit [OF assms(5)] Some assms(4) v1 show ?thesis by (auto simp: fget_def)
  qed
  from same miss diff show ?thesis by blast
qed

theorem group_key_stability_witness:
  "cache_inj st_cam (ad_signals cam3)
   \<and> fget format_self grp cam3 st_cam = (Inr (VRef 3), st_grp)
   \<and> fst (group_key format_self grp cam3 st_cam) =
       Inr ([VRef 1, VRef 2], [''XF:CAM:ArrayCounter_RBV'', ''XF:CAM:Ch3''])
   \<and> fget format_self grp cam3 st_grp = (Inr (VRef 3), st_grp)
   \<and> fst (group_key format_self grp cam4 st_grp) =
       Inr ([VRef 1, VRef 4], [''XF:CAM:ArrayCounter_RBV'', ''XF:CAM:Ch4''])
   \<and> (\<exists>v2 st2. fget format_self grp cam4 st_grp = (Inr v2, st2) \<and> v2 \<noteq> VRef 3)
   \<and> fst (fget format_self grp cam4 st_grp) = Inr (VRef 5)"
proof -
  note k3 = pair_of_fst [OF grp_key3]
  note k4 = pair_of_fst [OF grp_key4]
  have s3: "ad_signals cam3 = ad_signals cam3" by simp
  have s4: "ad_signals cam4 = ad_signals cam3" by (simp add: cam3_def cam4_def)
  from group_key_stability [OF cam_cache_inj grp_first k3 s3 grp_key3_again]
  have a: "fget format_self grp cam3 st_grp = (Inr (VRef 3), st_grp)" by simp
  from group_key_stability [OF cam_cache_inj grp_first k3 s4 k4]
  have b: "\<exists>v2 st2. fget format_self grp cam4 st_grp = (Inr v2, st2) \<and> v2 \<noteq> VRef 3" by simp
  from a b cam_cache_inj grp_first grp_key3 grp_key4 grp_second4 show ?thesis by simp
qed

end
